theory Spec2Isabelle
  imports Complex_Main
begin

section \<open>JavaScript values as far as the directive meets them\<close>

text \<open>
  The directive factory \<open>activeView\<close> receives an untyped option object and tests its
  properties with \<open>typeof\<close>, \<open>parseFloat\<close> and the relational operators. The model keeps
  the primitive values (objects, symbols and bigints are left out). A number is a real or
  one of the three special values; the rounding of IEEE doubles is not modelled.
\<close>

datatype jsnum = NaN | NegInfinity | Finite real | Infinity

datatype jsval = JUndefined | JNull | JBoolean bool | JNumber jsnum | JString string

text \<open>\<open>x < y\<close> on numbers: false as soon as one side is \<open>NaN\<close>.\<close>

fun num_lt :: "jsnum \<Rightarrow> jsnum \<Rightarrow> bool" where
  "num_lt NaN y = False"
| "num_lt x NaN = False"
| "num_lt (Finite a) (Finite b) = (a < b)"
| "num_lt x NegInfinity = False"
| "num_lt NegInfinity y = True"
| "num_lt Infinity y = False"
| "num_lt x Infinity = True"

definition isNaN :: "jsnum \<Rightarrow> bool" where
  "isNaN x = (x = NaN)"

text \<open>\<open>x >= y\<close> is "not \<open>x < y\<close>" unless the comparison is undefined; likewise \<open>x <= y\<close>
  and \<open>x > y\<close> read \<open>y < x\<close>.\<close>

definition num_ge :: "jsnum \<Rightarrow> jsnum \<Rightarrow> bool" where
  "num_ge x y = (if isNaN x \<or> isNaN y then False else \<not> num_lt x y)"

definition num_le :: "jsnum \<Rightarrow> jsnum \<Rightarrow> bool" where
  "num_le x y = (if isNaN x \<or> isNaN y then False else \<not> num_lt y x)"

definition num_gt :: "jsnum \<Rightarrow> jsnum \<Rightarrow> bool" where
  "num_gt x y = num_lt y x"

text \<open>
  The conversions between strings and numbers belong to the JavaScript engine. They are
  parameters of the model: \<open>StringToNumber\<close> is \<open>ToNumber\<close> on a string,
  \<open>parseFloat_string\<close> is \<open>parseFloat\<close> on a string and \<open>RealToString\<close> prints a finite
  number.
\<close>

record engine =
  StringToNumber :: "string \<Rightarrow> jsnum"
  parseFloat_string :: "string \<Rightarrow> jsnum"
  RealToString :: "real \<Rightarrow> string"

fun ToNumber :: "engine \<Rightarrow> jsval \<Rightarrow> jsnum" where
  "ToNumber E JUndefined = NaN"
| "ToNumber E JNull = Finite 0"
| "ToNumber E (JBoolean b) = Finite (if b then 1 else 0)"
| "ToNumber E (JNumber n) = n"
| "ToNumber E (JString s) = StringToNumber E s"

fun ToString :: "engine \<Rightarrow> jsval \<Rightarrow> string" where
  "ToString E JUndefined = ''undefined''"
| "ToString E JNull = ''null''"
| "ToString E (JBoolean b) = (if b then ''true'' else ''false'')"
| "ToString E (JNumber NaN) = ''NaN''"
| "ToString E (JNumber Infinity) = ''Infinity''"
| "ToString E (JNumber NegInfinity) = ''-Infinity''"
| "ToString E (JNumber (Finite r)) = RealToString E r"
| "ToString E (JString s) = s"

text \<open>
  \<open>parseFloat\<close> converts its argument to a string and parses the longest numeric prefix.
  The strings \<open>undefined\<close>, \<open>null\<close>, \<open>true\<close> and \<open>false\<close> have none; the string of a number
  parses back to that number.
\<close>

fun parseFloat :: "engine \<Rightarrow> jsval \<Rightarrow> jsnum" where
  "parseFloat E JUndefined = NaN"
| "parseFloat E JNull = NaN"
| "parseFloat E (JBoolean b) = NaN"
| "parseFloat E (JNumber n) = n"
| "parseFloat E (JString s) = parseFloat_string E s"

text \<open>
  An object literal is a finite map from property names to values; reading a property
  that is absent gives \<open>undefined\<close>. \<open>Object.assign\<close> copies the own properties of the
  source over the target.
\<close>

type_synonym jsobject = "string \<rightharpoonup> jsval"

definition getProp :: "jsobject \<Rightarrow> string \<Rightarrow> jsval" where
  "getProp obj k = (case obj k of None \<Rightarrow> JUndefined | Some v \<Rightarrow> v)"

definition Object_assign :: "jsobject \<Rightarrow> jsobject \<Rightarrow> jsobject" where
  "Object_assign target source = target ++ source"

datatype error = Error string | TypeError | SyntaxError | InvalidCharacterError


section \<open>Construction: defaults and \<open>validateOpts\<close>\<close>

definition defaults :: jsobject where
  "defaults =
     [''className'' \<mapsto> JString ''active-view-link'',
      ''updateDelay'' \<mapsto> JNumber (Finite 50),
      ''method'' \<mapsto> JString ''partial'',
      ''advance'' \<mapsto> JNumber (Finite (2 / 10)),
      ''largeEnough'' \<mapsto> JNumber (Finite (5 / 10))]"

text \<open>The own property names of \<open>DETECTION_METHODS\<close>.\<close>

definition DETECTION_METHODS :: "string list" where
  "DETECTION_METHODS = [''partial'', ''screenspace'', ''complete'']"

definition isString :: "jsval \<Rightarrow> bool" where
  "isString val = (case val of JString s \<Rightarrow> True | _ \<Rightarrow> False)"

definition isNumber :: "engine \<Rightarrow> jsval \<Rightarrow> bool" where
  "isNumber E val = (\<not> isNaN (parseFloat E val))"

definition isBetween :: "engine \<Rightarrow> jsval \<Rightarrow> real \<Rightarrow> real \<Rightarrow> bool" where
  "isBetween E v a b =
     (if num_ge (ToNumber E v) (Finite a)
      then (if num_le (ToNumber E v) (Finite b) then True else False)
      else False)"

definition hasOwnProperty :: "string list \<Rightarrow> jsval \<Rightarrow> bool" where
  "hasOwnProperty names val = (case val of JString s \<Rightarrow> s \<in> set names | _ \<Rightarrow> False)"

text \<open>A double quote inside the message texts.\<close>

definition quoted :: "string \<Rightarrow> string" where
  "quoted s = CHR 0x22 # s @ [CHR 0x22]"

text \<open>
  \<open>validateOpts\<close> runs the chain of tests of the source in its order; the first test that
  fails fixes the message and the value shown in it. The result \<open>Inl\<close> is the thrown
  error.
\<close>

definition validateOpts :: "engine \<Rightarrow> jsobject \<Rightarrow> error + unit" where
  "validateOpts E OPTS =
     (let PREFIX = ''[v-active-view] Invalid option for '';
          INFIX = '' Passed option: '';
          SUFFIX = ''.'';
          (invalidOpt, err) =
            (if \<not> isString (getProp OPTS ''className'') then
               (getProp OPTS ''className'',
                Some (quoted ''className'' @ ''. Needs to be a string.''))
             else if \<not> isNumber E (getProp OPTS ''updateDelay'')
                     \<or> num_lt (ToNumber E (getProp OPTS ''updateDelay'')) (Finite 0) then
               (getProp OPTS ''updateDelay'',
                Some (quoted ''updateDelay'' @ ''. Needs to be a number '' @
                      ''greater than or equal to 0.''))
             else if \<not> isString (getProp OPTS ''method'')
                     \<or> \<not> hasOwnProperty DETECTION_METHODS (getProp OPTS ''method'') then
               (getProp OPTS ''method'',
                Some (quoted ''className'' @ ''. Needs to be a string of value '' @
                      quoted ''partial'' @ '', '' @ quoted ''screenspace'' @ '' or '' @
                      quoted ''complete'' @ ''.''))
             else if \<not> isNumber E (getProp OPTS ''advance'')
                     \<or> \<not> isBetween E (getProp OPTS ''advance'') 0 1 then
               (getProp OPTS ''advance'',
                Some (quoted ''advance'' @ ''. Needs to be a number between 0 and 1.''))
             else if \<not> isNumber E (getProp OPTS ''largeEnough'')
                     \<or> \<not> isBetween E (getProp OPTS ''largeEnough'') 0 1 then
               (getProp OPTS ''largeEnough'',
                Some (quoted ''largeEnough'' @ ''. Needs to be a number between 0 and 1.''))
             else (JUndefined, None))
      in case err of
           None \<Rightarrow> Inr ()
         | Some e \<Rightarrow> Inl (Error (PREFIX @ e @ INFIX @ ToString E invalidOpt @ SUFFIX)))"

text \<open>
  \<open>activeView\<close> merges the passed options over the defaults and validates the result. It
  returns the options the new directive works with, or the error \<open>validateOpts\<close> throws.
\<close>

definition activeView :: "engine \<Rightarrow> jsobject \<Rightarrow> error + jsobject" where
  "activeView E passed =
     (let OPTS = Object_assign defaults passed
      in case validateOpts E OPTS of Inl e \<Rightarrow> Inl e | Inr u \<Rightarrow> Inr OPTS)"


section \<open>The registry object \<open>elements\<close>\<close>

text \<open>
  \<open>elements\<close> is a plain object used as a dictionary from content ids to pairs. The
  model keeps its own properties as a list in the order in which \<open>for (key in elements)\<close>
  visits them: first the keys that are array indices (canonical decimal numerals up to
  \<open>2^32 - 2\<close>) in ascending numeric order, then all other keys in the order of their
  creation. Assigning to an existing key keeps its place; \<open>delete\<close> removes the key.
  The key \<open>__proto__\<close>, whose assignment sets the prototype of the object instead of
  creating a property, is outside the model: the statements about binding exclude it.
\<close>

type_synonym key = string

definition isDigit :: "char \<Rightarrow> bool" where
  "isDigit c = (c \<in> set ''0123456789'')"

definition digitsToNat :: "string \<Rightarrow> nat" where
  "digitsToNat ds = foldl (\<lambda>n c. 10 * n + (of_char c - 48)) 0 ds"

definition isArrayIndex :: "key \<Rightarrow> bool" where
  "isArrayIndex k =
     (k \<noteq> [] \<and> list_all isDigit k \<and> (k = ''0'' \<or> hd k \<noteq> CHR ''0'')
      \<and> digitsToNat k \<le> 4294967294)"


fun insertIndex :: "nat \<Rightarrow> key \<Rightarrow> 'v \<Rightarrow> (key \<times> 'v) list \<Rightarrow> (key \<times> 'v) list" where
  "insertIndex n k v [] = [(k, v)]"
| "insertIndex n k v ((k', v') # ps) =
     (if isArrayIndex k' \<and> digitsToNat k' < n then (k', v') # insertIndex n k v ps
      else (k, v) # (k', v') # ps)"

definition overwrite :: "key \<Rightarrow> 'v \<Rightarrow> (key \<times> 'v) list \<Rightarrow> (key \<times> 'v) list" where
  "overwrite k v ps = map (\<lambda>(k', v'). if k' = k then (k', v) else (k', v')) ps"

text \<open>\<open>elements[k] = v\<close>.\<close>

definition assign :: "key \<Rightarrow> 'v \<Rightarrow> (key \<times> 'v) list \<Rightarrow> (key \<times> 'v) list" where
  "assign k v ps =
     (if k \<in> fst ` set ps then overwrite k v ps
      else if isArrayIndex k then insertIndex (digitsToNat k) k v ps
      else ps @ [(k, v)])"

text \<open>\<open>delete elements[k]\<close>.\<close>

definition delete :: "key \<Rightarrow> (key \<times> 'v) list \<Rightarrow> (key \<times> 'v) list" where
  "delete k ps = filter (\<lambda>(k', v'). k' \<noteq> k) ps"


section \<open>Geometry and the three detection methods\<close>

text \<open>
  A registered pair holds the link element and the content element that
  \<open>document.getElementById\<close> returned at registration: \<open>None\<close> is \<open>null\<close>, an id that no
  element carries. \<open>getBoundingClientRect\<close> is a query to the browser, a function from
  content elements to rectangles that is part of the state of the page. Reading the
  rectangle of \<open>null\<close> throws a \<open>TypeError\<close>.
\<close>

record ('l, 'c) pair =
  link :: 'l
  content :: "'c option"

record vals =
  top_px :: real
  bottom_px :: real

record options =
  className :: string
  updateDelay :: nat
  detection :: string
  advance :: real
  largeEnough :: real

text \<open>
  The record \<open>options\<close> holds \<open>OPTS\<close> as the running directive reads it: the class name,
  the delay handed to \<open>setTimeout\<close> in milliseconds, the name under \<open>OPTS.method\<close> and
  the two fractions as numbers.
\<close>

definition getCommonValues :: "('c \<Rightarrow> vals) \<Rightarrow> ('l, 'c) pair \<Rightarrow> error + vals" where
  "getCommonValues getBoundingClientRect el =
     (case content el of
        None \<Rightarrow> Inl TypeError
      | Some c \<Rightarrow>
          (let rect = getBoundingClientRect c;
               top = top_px rect;
               bottom = bottom_px rect
           in Inr \<lparr>top_px = top, bottom_px = bottom\<rparr>))"

fun partiallyVisible_loop ::
  "('c \<Rightarrow> vals) \<Rightarrow> real \<Rightarrow> real \<Rightarrow> (key \<times> ('l, 'c) pair) list \<Rightarrow> error + 'l option" where
  "partiallyVisible_loop geom wHeight adv [] = Inr None"
| "partiallyVisible_loop geom wHeight adv ((k, el) # rest) =
     (case getCommonValues geom el of
        Inl e \<Rightarrow> Inl e
      | Inr vals \<Rightarrow>
          (let isVisible = (top_px vals < wHeight \<and> bottom_px vals \<ge> adv)
           in if isVisible then Inr (Some (link el))
              else partiallyVisible_loop geom wHeight adv rest))"

definition partiallyVisible ::
  "options \<Rightarrow> ('c \<Rightarrow> vals) \<Rightarrow> (key \<times> ('l, 'c) pair) list \<Rightarrow> real \<Rightarrow> error + 'l option" where
  "partiallyVisible OPTS geom elems wHeight =
     (let adv = advance OPTS * wHeight
      in partiallyVisible_loop geom wHeight adv elems)"

text \<open>
  The quotient \<open>x / wHeight\<close> of \<open>screenspace\<close>: JavaScript divides by zero without an
  error, giving an infinity or \<open>NaN\<close>.
\<close>

definition js_div :: "real \<Rightarrow> real \<Rightarrow> jsnum" where
  "js_div x y =
     (if y \<noteq> 0 then Finite (x / y)
      else if x > 0 then Infinity else if x < 0 then NegInfinity else NaN)"

fun screenspace_loop ::
  "options \<Rightarrow> ('c \<Rightarrow> vals) \<Rightarrow> real \<Rightarrow> jsnum \<Rightarrow> 'l option \<Rightarrow> (key \<times> ('l, 'c) pair) list
   \<Rightarrow> error + 'l option" where
  "screenspace_loop OPTS geom wHeight biggestShare newActiveLink [] = Inr newActiveLink"
| "screenspace_loop OPTS geom wHeight biggestShare newActiveLink ((k, el) # rest) =
     (case getCommonValues geom el of
        Inl e \<Rightarrow> Inl e
      | Inr vals \<Rightarrow>
          (let height = bottom_px vals - top_px vals
           in if top_px vals > wHeight \<or> bottom_px vals < 0
              then screenspace_loop OPTS geom wHeight biggestShare newActiveLink rest
              else
                (let topReduction = (if top_px vals < 0 then - top_px vals else 0);
                     bottomReduction =
                       (if bottom_px vals > wHeight then bottom_px vals - wHeight else 0);
                     share = js_div (height - topReduction - bottomReduction) wHeight
                 in if num_gt share biggestShare
                    then (if num_ge share (Finite (largeEnough OPTS))
                          then Inr (Some (link el))
                          else screenspace_loop OPTS geom wHeight share (Some (link el)) rest)
                    else screenspace_loop OPTS geom wHeight biggestShare newActiveLink rest)))"

definition screenspace ::
  "options \<Rightarrow> ('c \<Rightarrow> vals) \<Rightarrow> (key \<times> ('l, 'c) pair) list \<Rightarrow> real \<Rightarrow> error + 'l option" where
  "screenspace OPTS geom elems wHeight =
     screenspace_loop OPTS geom wHeight (Finite 0) None elems"

fun completelyVisible ::
  "('c \<Rightarrow> vals) \<Rightarrow> (key \<times> ('l, 'c) pair) list \<Rightarrow> real \<Rightarrow> error + 'l option" where
  "completelyVisible geom [] wHeight = Inr None"
| "completelyVisible geom ((k, el) # rest) wHeight =
     (case getCommonValues geom el of
        Inl e \<Rightarrow> Inl e
      | Inr vals \<Rightarrow>
          (let isVisible = (top_px vals \<ge> 0 \<and> bottom_px vals \<le> wHeight)
           in if isVisible then Inr (Some (link el))
              else completelyVisible geom rest wHeight))"

text \<open>
  \<open>UPDATE_METHOD\<close> is \<open>DETECTION_METHODS[OPTS.method]\<close>. For a name that is no key of the
  table it is \<open>undefined\<close>, and calling it throws a \<open>TypeError\<close>.
\<close>

definition UPDATE_METHOD ::
  "options \<Rightarrow> ('c \<Rightarrow> vals) \<Rightarrow> (key \<times> ('l, 'c) pair) list \<Rightarrow> real \<Rightarrow> error + 'l option" where
  "UPDATE_METHOD OPTS geom elems wHeight =
     (if detection OPTS = ''partial'' then partiallyVisible OPTS geom elems wHeight
      else if detection OPTS = ''screenspace'' then screenspace OPTS geom elems wHeight
      else if detection OPTS = ''complete'' then completelyVisible geom elems wHeight
      else Inl TypeError)"

text \<open>
  A registry whose content elements were all found: the entries \<open>inserted\<close> stores when
  \<open>getElementById\<close> succeeds.
\<close>

definition resolved :: "(key \<times> 'l \<times> 'c) list \<Rightarrow> (key \<times> ('l, 'c) pair) list" where
  "resolved kls = map (\<lambda>(k, l, c). (k, \<lparr>link = l, content = Some c\<rparr>)) kls"


section \<open>The directive and the page it runs in\<close>

text \<open>
  The state holds the four variables of the closure (\<open>isBound\<close>, \<open>elements\<close>, \<open>oldActive\<close>,
  \<open>scrollTimeout\<close>) and the part of the browser the directive talks to: whether
  \<open>updateActive\<close> is registered as a scroll listener of the document, the pending
  timeouts (handle and due time in milliseconds), the next timer handle, the clock, the
  height of the window, the rectangles and the ids of the content elements, and the
  class list of every link. Two traces are kept for the statements: the calls of
  \<open>classList.remove\<close> and \<open>classList.add\<close> in the order they were issued, and the times
  at which the timeout callback ran.
\<close>

datatype 'l mutation = ClassRemove 'l string | ClassAdd 'l string

record ('l, 'c) state =
  isBound :: bool
  elements :: "(key \<times> ('l, 'c) pair) list"
  oldActive :: "'l option"
  scrollTimeout :: "nat option"
  listening :: bool
  timers :: "(nat \<times> nat) list"
  nextTimer :: nat
  clock :: nat
  innerHeight :: real
  rects :: "'c \<Rightarrow> vals"
  byId :: "string \<Rightarrow> 'c option"
  classList :: "'l \<Rightarrow> string list"
  mutations :: "'l mutation list"
  evaluations :: "nat list"

definition initial ::
  "real \<Rightarrow> ('c \<Rightarrow> vals) \<Rightarrow> (string \<Rightarrow> 'c option) \<Rightarrow> ('l \<Rightarrow> string list) \<Rightarrow> ('l, 'c) state" where
  "initial h g d c =
     \<lparr>isBound = False, elements = [], oldActive = None, scrollTimeout = None,
      listening = False, timers = [], nextTimer = 1, clock = 0,
      innerHeight = h, rects = g, byId = d, classList = c,
      mutations = [], evaluations = []\<rparr>"

text \<open>
  A class list is an ordered set of tokens. \<open>add\<close> and \<open>remove\<close> throw for the empty
  token and for a token with white space.
\<close>

definition isAsciiWhitespace :: "char \<Rightarrow> bool" where
  "isAsciiWhitespace c = (c \<in> set [CHR 0x09, CHR 0x0A, CHR 0x0C, CHR 0x0D, CHR 0x20])"

definition tokenError :: "string \<Rightarrow> error option" where
  "tokenError t =
     (if t = [] then Some SyntaxError
      else if list_ex isAsciiWhitespace t then Some InvalidCharacterError
      else None)"

definition classList_remove ::
  "'l \<Rightarrow> string \<Rightarrow> ('l, 'c) state \<Rightarrow> error + ('l, 'c) state" where
  "classList_remove el t s =
     (case tokenError t of
        Some e \<Rightarrow> Inl e
      | None \<Rightarrow>
          Inr (s\<lparr>classList := (classList s)(el := removeAll t (classList s el)),
                 mutations := mutations s @ [ClassRemove el t]\<rparr>))"

definition classList_add ::
  "'l \<Rightarrow> string \<Rightarrow> ('l, 'c) state \<Rightarrow> error + ('l, 'c) state" where
  "classList_add el t s =
     (case tokenError t of
        Some e \<Rightarrow> Inl e
      | None \<Rightarrow>
          Inr (s\<lparr>classList := (classList s)
                   (el := (if t \<in> set (classList s el) then classList s el
                           else classList s el @ [t])),
                 mutations := mutations s @ [ClassAdd el t]\<rparr>))"

definition clearTimeout :: "nat option \<Rightarrow> ('l, 'c) state \<Rightarrow> ('l, 'c) state" where
  "clearTimeout h s =
     (case h of
        None \<Rightarrow> s
      | Some i \<Rightarrow> s\<lparr>timers := filter (\<lambda>(j, due). j \<noteq> i) (timers s)\<rparr>)"

definition setTimeout :: "nat \<Rightarrow> ('l, 'c) state \<Rightarrow> nat \<times> ('l, 'c) state" where
  "setTimeout delay s =
     (nextTimer s,
      s\<lparr>timers := timers s @ [(nextTimer s, clock s + delay)],
        nextTimer := Suc (nextTimer s)\<rparr>)"

text \<open>
  \<open>updateActive\<close> cancels the pending timeout and arms a new one. The function it hands
  to \<open>setTimeout\<close> is \<open>timeoutCallback\<close>; every pending timeout of the model runs it.
\<close>

definition updateActive :: "options \<Rightarrow> ('l, 'c) state \<Rightarrow> ('l, 'c) state" where
  "updateActive OPTS s =
     (let s1 = clearTimeout (scrollTimeout s) s;
          (h, s2) = setTimeout (updateDelay OPTS) s1
      in s2\<lparr>scrollTimeout := Some h\<rparr>)"

definition timeoutCallback :: "options \<Rightarrow> ('l, 'c) state \<Rightarrow> error + ('l, 'c) state" where
  "timeoutCallback OPTS s =
     (case UPDATE_METHOD OPTS (rects s) (elements s) (innerHeight s) of
        Inl e \<Rightarrow> Inl e
      | Inr None \<Rightarrow> Inr s
      | Inr (Some newActiveLink) \<Rightarrow>
          (case (case oldActive s of
                   None \<Rightarrow> Inr s
                 | Some old \<Rightarrow> classList_remove old (className OPTS) s) of
             Inl e \<Rightarrow> Inl e
           | Inr s1 \<Rightarrow>
               (case classList_add newActiveLink (className OPTS) s1 of
                  Inl e \<Rightarrow> Inl e
                | Inr s2 \<Rightarrow> Inr (s2\<lparr>oldActive := Some newActiveLink\<rparr>))))"

definition hasBoundElements :: "('l, 'c) state \<Rightarrow> bool" where
  "hasBoundElements s = (case elements s of [] \<Rightarrow> False | kv # rest \<Rightarrow> True)"

definition inserted :: "options \<Rightarrow> 'l \<Rightarrow> key \<Rightarrow> ('l, 'c) state \<Rightarrow> ('l, 'c) state" where
  "inserted OPTS el contentId s =
     (let s1 = (if \<not> isBound s
                then updateActive OPTS (s\<lparr>listening := True, isBound := True\<rparr>)
                else s)
      in s1\<lparr>elements :=
              assign contentId \<lparr>link = el, content = byId s1 contentId\<rparr> (elements s1)\<rparr>)"

definition unbind :: "options \<Rightarrow> 'l \<Rightarrow> key \<Rightarrow> ('l, 'c) state \<Rightarrow> ('l, 'c) state" where
  "unbind OPTS el contentId s =
     (let s1 = s\<lparr>elements := delete contentId (elements s)\<rparr>
      in if \<not> hasBoundElements s1 then s1\<lparr>listening := False, isBound := False\<rparr>
         else s1)"

text \<open>
  The event loop. When a timeout is due the clock stands at its due time, the timeout
  leaves the pending list and the callback runs; an error the callback throws ends the
  callback and nothing else. The callback neither arms nor cancels a timeout, so the
  timeouts due within a span of time are fixed when the span begins; they run in the
  order of their due times.
\<close>

definition fire :: "options \<Rightarrow> nat \<times> nat \<Rightarrow> ('l, 'c) state \<Rightarrow> ('l, 'c) state" where
  "fire OPTS t s =
     (let s1 = s\<lparr>clock := max (clock s) (snd t),
                 timers := filter (\<lambda>(j, due). j \<noteq> fst t) (timers s),
                 evaluations := evaluations s @ [max (clock s) (snd t)]\<rparr>
      in case timeoutCallback OPTS s1 of Inl e \<Rightarrow> s1 | Inr s2 \<Rightarrow> s2)"

definition elapse :: "options \<Rightarrow> nat \<Rightarrow> ('l, 'c) state \<Rightarrow> ('l, 'c) state" where
  "elapse OPTS d s =
     (let target = clock s + d;
          due = sort_key snd (filter (\<lambda>(j, t). t \<le> target) (timers s));
          s1 = fold (fire OPTS) due s
      in s1\<lparr>clock := target\<rparr>)"

text \<open>
  What can happen to the directive: the framework inserts or unbinds a link, the user
  scrolls (the rectangles change and the listeners of the document are called), time
  passes.
\<close>

datatype ('l, 'c) event =
  Inserted 'l key | Unbind 'l key | Scroll "'c \<Rightarrow> vals" | Elapse nat

fun step :: "options \<Rightarrow> ('l, 'c) event \<Rightarrow> ('l, 'c) state \<Rightarrow> ('l, 'c) state" where
  "step OPTS (Inserted el k) s = inserted OPTS el k s"
| "step OPTS (Unbind el k) s = unbind OPTS el k s"
| "step OPTS (Scroll g) s =
     (let s1 = s\<lparr>rects := g\<rparr> in if listening s1 then updateActive OPTS s1 else s1)"
| "step OPTS (Elapse d) s = elapse OPTS d s"

definition run :: "options \<Rightarrow> ('l, 'c) event list \<Rightarrow> ('l, 'c) state \<Rightarrow> ('l, 'c) state" where
  "run OPTS es s = fold (step OPTS) es s"





section \<open>Notions the statements use\<close>



definition linkOf :: "key \<times> 'l \<times> 'c \<Rightarrow> 'l" where
  "linkOf e = (case e of (k, l, c) \<Rightarrow> l)"


text \<open>
  The options \<open>activeView\<close> works with: the passed ones merged over the defaults.
\<close>

definition option_value :: "jsobject \<Rightarrow> string \<Rightarrow> jsval" where
  "option_value passed k = getProp (Object_assign defaults passed) k"

text \<open>
  The constraint table of the specification, read on the merged options: \<open>className\<close> a
  non-empty string, \<open>updateDelay\<close> a number that is at least 0, \<open>method\<close> one of the
  three method names, \<open>advance\<close> and \<open>largeEnough\<close> numbers between 0 and 1.
\<close>

definition table_ok :: "jsobject \<Rightarrow> bool" where
  "table_ok passed =
     ((case option_value passed ''className'' of JString s \<Rightarrow> s \<noteq> [] | _ \<Rightarrow> False)
      \<and> (case option_value passed ''updateDelay'' of
            JNumber n \<Rightarrow> num_ge n (Finite 0) | _ \<Rightarrow> False)
      \<and> (case option_value passed ''method'' of
            JString s \<Rightarrow> s \<in> set [''partial'', ''screenspace'', ''complete''] | _ \<Rightarrow> False)
      \<and> (case option_value passed ''advance'' of
            JNumber n \<Rightarrow> num_ge n (Finite 0) \<and> num_le n (Finite 1) | _ \<Rightarrow> False)
      \<and> (case option_value passed ''largeEnough'' of
            JNumber n \<Rightarrow> num_ge n (Finite 0) \<and> num_le n (Finite 1) | _ \<Rightarrow> False))"



section \<open>Sample pages\<close>

text \<open>
  The concrete inputs of the examples: links and content elements are named by strings,
  a page is a table of the rectangles of its content elements, every id is found, and
  no link carries a class at the start. The sample options are the defaults of
  \<open>activeView\<close>. The sample engine converts a string of decimal digits to the number it
  writes, as every engine does; the examples hand it no other string and print no
  number.
\<close>

definition page :: "(string \<times> real \<times> real) list \<Rightarrow> string \<Rightarrow> vals" where
  "page tbl c =
     (case map_of tbl c of
        Some (t, b) \<Rightarrow> \<lparr>top_px = t, bottom_px = b\<rparr>
      | None \<Rightarrow> \<lparr>top_px = 0, bottom_px = 0\<rparr>)"

definition noClasses :: "string \<Rightarrow> string list" where
  "noClasses l = []"

definition defaultOPTS :: options where
  "defaultOPTS =
     \<lparr>className = ''active-view-link'', updateDelay = 50, detection = ''partial'',
      advance = 2 / 10, largeEnough = 5 / 10\<rparr>"

definition decimal :: "string \<Rightarrow> jsnum" where
  "decimal s = (if s \<noteq> [] \<and> list_all isDigit s then Finite (real (digitsToNat s)) else NaN)"

definition engine0 :: engine where
  "engine0 =
     \<lparr>StringToNumber = decimal, parseFloat_string = decimal, RealToString = (\<lambda>r. [])\<rparr>"

text \<open>
  The sample page has the content element \<open>A\<close> inside a window of height 1000 and the
  content element \<open>B\<close> below it; on the page scrolled away both are below the window.
\<close>

definition samplePage :: "string \<Rightarrow> vals" where
  "samplePage = page [(''A'', 300, 900), (''B'', 1200, 1800)]"

definition scrolledAway :: "string \<Rightarrow> vals" where
  "scrolledAway = page [(''A'', 1200, 1800), (''B'', 2100, 2700)]"

definition sampleStart :: "(string, string) state" where
  "sampleStart = initial 1000 samplePage Some noClasses"

section \<open>Facts about the registry object\<close>

















lemma delete_removes: "k \<notin> fst ` set (delete k ps)"
  by (auto simp add: delete_def)


section \<open>Facts about the directive and the event loop\<close>



text \<open>
  An evaluation whose winner is the link that is already active takes the class off that
  link and puts it back: the links that carry the class stay the same, two calls are
  issued.
\<close>

lemma same_winner_net_effect:
  assumes "UPDATE_METHOD OPTS (rects s) (elements s) (innerHeight s) = Inr (Some l)"
    and "oldActive s = Some l" and "tokenError (className OPTS) = None"
    and "className OPTS \<in> set (classList s l)"
  shows "\<exists>s'. timeoutCallback OPTS s = Inr s'
           \<and> set (classList s' l) = set (classList s l)
           \<and> (\<forall>l'. l' \<noteq> l \<longrightarrow> classList s' l' = classList s l')
           \<and> oldActive s' = oldActive s
           \<and> mutations s' = mutations s @ [ClassRemove l (className OPTS), ClassAdd l (className OPTS)]"
  using assms
  by (auto simp add: timeoutCallback_def classList_remove_def classList_add_def)
























section \<open>Facts about the detection methods\<close>

lemma getCommonValues_resolved:
  "getCommonValues geom \<lparr>link = l, content = Some c\<rparr> = Inr \<lparr>top_px = top_px (geom c), bottom_px = bottom_px (geom c)\<rparr>"
  by (simp add: getCommonValues_def Let_def)

text \<open>
  The content element of a pair is \<open>null\<close> when no element carried its id at
  registration. A scan that reaches such a pair throws.
\<close>

lemma null_content_throws:
  "partiallyVisible OPTS geom ((k, \<lparr>link = l, content = None\<rparr>) # rest) wHeight = Inl TypeError"
  "screenspace OPTS geom ((k, \<lparr>link = l, content = None\<rparr>) # rest) wHeight = Inl TypeError"
  "completelyVisible geom ((k, \<lparr>link = l, content = None\<rparr>) # rest) wHeight = Inl TypeError"
  by (simp_all add: partiallyVisible_def screenspace_def getCommonValues_def)


lemma completelyVisible_resolved:
  "completelyVisible geom (resolved kls) wHeight =
     Inr (map_option linkOf
       (find (\<lambda>(k, l, c). 0 \<le> top_px (geom c) \<and> bottom_px (geom c) \<le> wHeight) kls))"
proof (induction kls)
  case Nil
  show ?case by (simp add: resolved_def)
next
  case (Cons e kls)
  obtain k l c where e: "e = (k, l, c)" by (cases e)
  from Cons show ?case
    by (simp add: e resolved_def getCommonValues_resolved linkOf_def)
qed




declare screenspace_loop.simps(2) [simp del]


lemma resolved_append: "resolved (xs @ ys) = resolved xs @ resolved ys"
  by (simp add: resolved_def)





section \<open>Facts about the validation of the options\<close>

lemma isString_iff: "isString v \<longleftrightarrow> (\<exists>s. v = JString s)"
  by (cases v) (simp_all add: isString_def)

lemma accepts_delay:
  "(isNumber E (JNumber d) \<and> \<not> num_lt (ToNumber E (JNumber d)) (Finite 0))
   \<longleftrightarrow> (d = Infinity \<or> (\<exists>r. d = Finite r \<and> 0 \<le> r))"
  by (cases d) (auto simp add: isNumber_def isNaN_def)

lemma accepts_fraction:
  "(isNumber E (JNumber a) \<and> isBetween E (JNumber a) 0 1)
   \<longleftrightarrow> (\<exists>r. a = Finite r \<and> 0 \<le> r \<and> r \<le> 1)"
  by (cases a) (auto simp add: isNumber_def isNaN_def isBetween_def num_ge_def num_le_def)

lemma accepts_method:
  "(isString v \<and> hasOwnProperty DETECTION_METHODS v)
   \<longleftrightarrow> (v = JString ''partial'' \<or> v = JString ''screenspace'' \<or> v = JString ''complete'')"
  by (cases v) (auto simp add: isString_def hasOwnProperty_def DETECTION_METHODS_def)

lemma validateOpts_throws_iff:
  "(\<exists>e. validateOpts E OPTS = Inl e) \<longleftrightarrow>
   \<not> (isString (getProp OPTS ''className'')
      \<and> (isNumber E (getProp OPTS ''updateDelay'')
           \<and> \<not> num_lt (ToNumber E (getProp OPTS ''updateDelay'')) (Finite 0))
      \<and> (isString (getProp OPTS ''method'')
           \<and> hasOwnProperty DETECTION_METHODS (getProp OPTS ''method''))
      \<and> (isNumber E (getProp OPTS ''advance'') \<and> isBetween E (getProp OPTS ''advance'') 0 1)
      \<and> (isNumber E (getProp OPTS ''largeEnough'')
           \<and> isBetween E (getProp OPTS ''largeEnough'') 0 1))"
  unfolding validateOpts_def Let_def
  by (auto split: if_splits)

lemma activeView_throws_validate:
  "(\<exists>e. activeView E passed = Inl e)
   \<longleftrightarrow> (\<exists>e. validateOpts E (Object_assign defaults passed) = Inl e)"
  by (simp add: activeView_def Let_def split: sum.splits)

section \<open>Evaluating the model on the sample pages\<close>

lemmas registry_eval =
  assign_def overwrite_def delete_def isArrayIndex_def isDigit_def digitsToNat_def

lemmas directive_eval =
  run_def inserted_def unbind_def updateActive_def clearTimeout_def setTimeout_def
  hasBoundElements_def initial_def elapse_def fire_def timeoutCallback_def
  classList_add_def classList_remove_def tokenError_def isAsciiWhitespace_def
  Let_def

lemmas method_eval =
  UPDATE_METHOD_def partiallyVisible_def screenspace_def getCommonValues_def
  js_div_def num_gt_def num_ge_def isNaN_def page_def defaultOPTS_def

lemmas sample_eval = samplePage_def scrolledAway_def sampleStart_def noClasses_def


lemmas options_eval =
  activeView_def validateOpts_def Object_assign_def defaults_def getProp_def isString_def
  isNumber_def isNaN_def isBetween_def num_ge_def num_le_def hasOwnProperty_def
  DETECTION_METHODS_def quoted_def engine0_def decimal_def isDigit_def digitsToNat_def
  option_value_def Let_def

section \<open>The claims\<close>

subsection \<open>C1: the method \<open>partial\<close>\<close>



subsection \<open>C2: the method \<open>screenspace\<close>\<close>




subsection \<open>C3: the method \<open>complete\<close>\<close>

text \<open>
  Claim C3 says that of two qualifying pairs the one registered first wins. The scan of
  \<open>completelyVisible\<close> follows the enumeration order of the registry object (lemma
  \<open>completelyVisible_resolved\<close>), and that order puts ids that are array indices first, in
  numeric order. With the links bound under the ids 2 and then 1, both completely
  visible, the link bound second wins; under the ids two and one the link bound first
  wins.
\<close>

theorem completelyVisible_index_keys:
  "map fst (elements (run (defaultOPTS\<lparr>detection := ''complete''\<rparr>)
       [Inserted ''linkTwo'' ''2'', Inserted ''linkOne'' ''1'']
       (initial 800 (page [(''2'', 10, 300), (''1'', 400, 790)]) Some noClasses)))
     = [''1'', ''2'']
   \<and> completelyVisible (page [(''2'', 10, 300), (''1'', 400, 790)])
       (elements (run (defaultOPTS\<lparr>detection := ''complete''\<rparr>)
          [Inserted ''linkTwo'' ''2'', Inserted ''linkOne'' ''1'']
          (initial 800 (page [(''2'', 10, 300), (''1'', 400, 790)]) Some noClasses))) 800
     = Inr (Some ''linkOne'')
   \<and> completelyVisible (page [(''two'', 10, 300), (''one'', 400, 790)])
       (elements (run (defaultOPTS\<lparr>detection := ''complete''\<rparr>)
          [Inserted ''linkTwo'' ''two'', Inserted ''linkOne'' ''one'']
          (initial 800 (page [(''two'', 10, 300), (''one'', 400, 790)]) Some noClasses))) 800
     = Inr (Some ''linkTwo'')"
  by (simp add: registry_eval directive_eval method_eval)

subsection \<open>C4: an evaluation with an unchanged winner\<close>

text \<open>
  Claim C4 says that an evaluation whose winner is the link already active mutates no
  class list. The callback of \<open>updateActive\<close> does not compare the winner with
  \<open>oldActive\<close>: on the sample page, after the first evaluation has activated the link, a
  second evaluation with the same registry and geometry has the same winner and issues
  one \<open>classList.remove\<close> and one \<open>classList.add\<close> on it.
\<close>

theorem reapplied_on_same_winner:
  "oldActive (run defaultOPTS [Inserted ''linkA'' ''A'', Elapse 50] sampleStart) = Some ''linkA''
   \<and> classList (run defaultOPTS [Inserted ''linkA'' ''A'', Elapse 50] sampleStart) ''linkA''
       = [''active-view-link'']
   \<and> UPDATE_METHOD defaultOPTS samplePage
        (elements (run defaultOPTS [Inserted ''linkA'' ''A'', Elapse 50] sampleStart)) 1000
       = Inr (Some ''linkA'')
   \<and> (case timeoutCallback defaultOPTS
               (run defaultOPTS [Inserted ''linkA'' ''A'', Elapse 50] sampleStart) of
         Inl e \<Rightarrow> False
       | Inr s2 \<Rightarrow>
           mutations s2
           = mutations (run defaultOPTS [Inserted ''linkA'' ''A'', Elapse 50] sampleStart)
             @ [ClassRemove ''linkA'' ''active-view-link'', ClassAdd ''linkA'' ''active-view-link''])"
  by (simp add: registry_eval directive_eval method_eval sample_eval)

subsection \<open>C5: when construction throws\<close>

text \<open>
  Claim C5, as the code has it. \<open>activeView\<close> throws if and only if, in the options
  merged over the defaults, \<open>className\<close> is not a string, or \<open>parseFloat\<close> of
  \<open>updateDelay\<close> is \<open>NaN\<close> or \<open>updateDelay < 0\<close>, or \<open>method\<close> is not one of the three
  method names, or \<open>parseFloat\<close> of \<open>advance\<close> is \<open>NaN\<close> or \<open>advance\<close> does not compare
  between 0 and 1, or the same for \<open>largeEnough\<close>; the comparisons are those of
  JavaScript, on the operand converted to a number. When the three numeric options are
  numbers this says: \<open>updateDelay\<close> is \<open>NaN\<close> or negative, \<open>advance\<close> or \<open>largeEnough\<close> is
  not a finite number between 0 and 1. Every string is accepted as \<open>className\<close>.
\<close>

theorem construction_throws_iff:
  "((\<exists>e. activeView E passed = Inl e) \<longleftrightarrow>
      \<not> ((\<exists>s. option_value passed ''className'' = JString s)
         \<and> \<not> isNaN (parseFloat E (option_value passed ''updateDelay''))
         \<and> \<not> num_lt (ToNumber E (option_value passed ''updateDelay'')) (Finite 0)
         \<and> (option_value passed ''method'' = JString ''partial''
             \<or> option_value passed ''method'' = JString ''screenspace''
             \<or> option_value passed ''method'' = JString ''complete'')
         \<and> \<not> isNaN (parseFloat E (option_value passed ''advance''))
         \<and> num_ge (ToNumber E (option_value passed ''advance'')) (Finite 0)
         \<and> num_le (ToNumber E (option_value passed ''advance'')) (Finite 1)
         \<and> \<not> isNaN (parseFloat E (option_value passed ''largeEnough''))
         \<and> num_ge (ToNumber E (option_value passed ''largeEnough'')) (Finite 0)
         \<and> num_le (ToNumber E (option_value passed ''largeEnough'')) (Finite 1)))
   \<and> (option_value passed ''updateDelay'' = JNumber d
        \<and> option_value passed ''advance'' = JNumber a
        \<and> option_value passed ''largeEnough'' = JNumber g \<longrightarrow>
        ((\<exists>e. activeView E passed = Inl e) \<longleftrightarrow>
           \<not> ((\<exists>s. option_value passed ''className'' = JString s)
              \<and> (d = Infinity \<or> (\<exists>r. d = Finite r \<and> 0 \<le> r))
              \<and> (option_value passed ''method'' = JString ''partial''
                  \<or> option_value passed ''method'' = JString ''screenspace''
                  \<or> option_value passed ''method'' = JString ''complete'')
              \<and> (\<exists>r. a = Finite r \<and> 0 \<le> r \<and> r \<le> 1)
              \<and> (\<exists>r. g = Finite r \<and> 0 \<le> r \<and> r \<le> 1))))"
proof (intro conjI impI)
  have between: "isBetween E v 0 1
                 \<longleftrightarrow> num_ge (ToNumber E v) (Finite 0) \<and> num_le (ToNumber E v) (Finite 1)" for v
    by (simp add: isBetween_def)
  show "(\<exists>e. activeView E passed = Inl e) \<longleftrightarrow>
      \<not> ((\<exists>s. option_value passed ''className'' = JString s)
         \<and> \<not> isNaN (parseFloat E (option_value passed ''updateDelay''))
         \<and> \<not> num_lt (ToNumber E (option_value passed ''updateDelay'')) (Finite 0)
         \<and> (option_value passed ''method'' = JString ''partial''
             \<or> option_value passed ''method'' = JString ''screenspace''
             \<or> option_value passed ''method'' = JString ''complete'')
         \<and> \<not> isNaN (parseFloat E (option_value passed ''advance''))
         \<and> num_ge (ToNumber E (option_value passed ''advance'')) (Finite 0)
         \<and> num_le (ToNumber E (option_value passed ''advance'')) (Finite 1)
         \<and> \<not> isNaN (parseFloat E (option_value passed ''largeEnough''))
         \<and> num_ge (ToNumber E (option_value passed ''largeEnough'')) (Finite 0)
         \<and> num_le (ToNumber E (option_value passed ''largeEnough'')) (Finite 1))"
    unfolding activeView_throws_validate validateOpts_throws_iff accepts_method
      option_value_def [symmetric] isNumber_def between
    unfolding isString_iff
    by blast
next
  assume n: "option_value passed ''updateDelay'' = JNumber d
        \<and> option_value passed ''advance'' = JNumber a
        \<and> option_value passed ''largeEnough'' = JNumber g"
  have "(\<exists>e. activeView E passed = Inl e) \<longleftrightarrow>
         \<not> (isString (option_value passed ''className'')
            \<and> (d = Infinity \<or> (\<exists>r. d = Finite r \<and> 0 \<le> r))
            \<and> (option_value passed ''method'' = JString ''partial''
                \<or> option_value passed ''method'' = JString ''screenspace''
                \<or> option_value passed ''method'' = JString ''complete'')
            \<and> (\<exists>r. a = Finite r \<and> 0 \<le> r \<and> r \<le> 1)
            \<and> (\<exists>r. g = Finite r \<and> 0 \<le> r \<and> r \<le> 1))"
    unfolding activeView_throws_validate validateOpts_throws_iff option_value_def [symmetric]
    by (simp only: n accepts_delay accepts_fraction accepts_method)
  then show "(\<exists>e. activeView E passed = Inl e) \<longleftrightarrow>
           \<not> ((\<exists>s. option_value passed ''className'' = JString s)
              \<and> (d = Infinity \<or> (\<exists>r. d = Finite r \<and> 0 \<le> r))
              \<and> (option_value passed ''method'' = JString ''partial''
                  \<or> option_value passed ''method'' = JString ''screenspace''
                  \<or> option_value passed ''method'' = JString ''complete'')
              \<and> (\<exists>r. a = Finite r \<and> 0 \<le> r \<and> r \<le> 1)
              \<and> (\<exists>r. g = Finite r \<and> 0 \<le> r \<and> r \<le> 1))"
    by (simp only: isString_iff)
qed

text \<open>
  An \<open>advance\<close> of 2 is refused; the empty class name with an infinite delay is
  accepted.
\<close>

theorem construction_throws_iff_witness:
  "(\<exists>e. activeView engine0 [''advance'' \<mapsto> JNumber (Finite 2)] = Inl e)
   \<and> \<not> (\<exists>e. activeView engine0
              [''className'' \<mapsto> JString [], ''updateDelay'' \<mapsto> JNumber Infinity] = Inl e)"
proof -
  let ?bad = "[''advance'' \<mapsto> JNumber (Finite 2)]"
  let ?good = "[''className'' \<mapsto> JString [], ''updateDelay'' \<mapsto> JNumber Infinity]"
  have 1: "option_value ?bad ''updateDelay'' = JNumber (Finite 50)
         \<and> option_value ?bad ''advance'' = JNumber (Finite 2)
         \<and> option_value ?bad ''largeEnough'' = JNumber (Finite (5 / 10))"
    by (simp add: option_value_def getProp_def Object_assign_def defaults_def)
  have 2: "option_value ?good ''updateDelay'' = JNumber Infinity
         \<and> option_value ?good ''advance'' = JNumber (Finite (2 / 10))
         \<and> option_value ?good ''largeEnough'' = JNumber (Finite (5 / 10))"
    by (simp add: option_value_def getProp_def Object_assign_def defaults_def)
  have 3: "option_value ?good ''className'' = JString []"
    "option_value ?good ''method'' = JString ''partial''"
    by (simp_all add: option_value_def getProp_def Object_assign_def defaults_def)
  have fr: "\<exists>r. Finite (2 / 10) = Finite r \<and> 0 \<le> r \<and> r \<le> 1"
    "\<exists>r. Finite (5 / 10) = Finite r \<and> 0 \<le> r \<and> r \<le> 1"
    by (rule exI [of _ "2 / 10"], simp) (rule exI [of _ "5 / 10"], simp)
  have bad: "\<exists>e. activeView engine0 ?bad = Inl e"
    unfolding construction_throws_iff [THEN conjunct2, THEN mp, OF 1, of engine0] by simp
  have good: "\<not> (\<exists>e. activeView engine0 ?good = Inl e)"
    unfolding construction_throws_iff [THEN conjunct2, THEN mp, OF 2, of engine0] 3
    using fr by blast
  from bad good show ?thesis by (rule conjI)
qed

text \<open>
  The claim as it was stated fails twice. The empty class name violates the constraint
  table of the specification, and construction succeeds. So it does for the delay given
  as the string \<open>50\<close>, which is not a number: \<open>parseFloat\<close> reads a number from it.
\<close>

theorem lenient_validation_counterexample:
  "\<not> table_ok [''className'' \<mapsto> JString []]
   \<and> activeView engine0 [''className'' \<mapsto> JString []]
       = Inr (Object_assign defaults [''className'' \<mapsto> JString []])
   \<and> \<not> table_ok [''updateDelay'' \<mapsto> JString ''50'']
   \<and> activeView engine0 [''updateDelay'' \<mapsto> JString ''50'']
       = Inr (Object_assign defaults [''updateDelay'' \<mapsto> JString ''50''])"
  by (simp add: table_ok_def options_eval)

subsection \<open>C6: what the error names\<close>

text \<open>
  Claim C6 says that the error names the offending option. For an invalid \<open>method\<close> the
  message names \<open>className\<close>: the text of the third test was taken over from the first.
\<close>

theorem invalid_method_names_className:
  "activeView engine0 [''method'' \<mapsto> JString ''foo'']
   = Inl (Error (''[v-active-view] Invalid option for '' @ quoted ''className''
                 @ ''. Needs to be a string of value '' @ quoted ''partial'' @ '', ''
                 @ quoted ''screenspace'' @ '' or '' @ quoted ''complete'' @ ''.''
                 @ '' Passed option: foo.''))"
  by (simp add: options_eval)

subsection \<open>C7: the scroll subscription follows the registry\<close>




subsection \<open>C8: debouncing\<close>



subsection \<open>C9: one entry per identifier\<close>



subsection \<open>C10: no winner, no change\<close>

text \<open>
  Claim C10. When the detection method returns \<open>null\<close> the callback leaves the state as
  it is: no class list is touched, no call is issued, and \<open>oldActive\<close> keeps the link that
  was active.
\<close>

theorem no_winner_no_change:
  assumes "UPDATE_METHOD OPTS (rects s) (elements s) (innerHeight s) = Inr None"
  shows "timeoutCallback OPTS s = Inr s"
  using assms by (simp add: timeoutCallback_def)

text \<open>
  The sample page after its link was activated and the content was scrolled away.
\<close>

theorem no_winner_no_change_witness:
  "oldActive ((run defaultOPTS [Inserted ''linkA'' ''A'', Elapse 50] sampleStart)
               \<lparr>rects := scrolledAway\<rparr>) = Some ''linkA''
   \<and> timeoutCallback defaultOPTS
        ((run defaultOPTS [Inserted ''linkA'' ''A'', Elapse 50] sampleStart)\<lparr>rects := scrolledAway\<rparr>)
     = Inr ((run defaultOPTS [Inserted ''linkA'' ''A'', Elapse 50] sampleStart)\<lparr>rects := scrolledAway\<rparr>)"
proof -
  let ?s = "(run defaultOPTS [Inserted ''linkA'' ''A'', Elapse 50] sampleStart)\<lparr>rects := scrolledAway\<rparr>"
  have e: "elements ?s = [(''A'', \<lparr>link = ''linkA'', content = Some ''A''\<rparr>)]"
    and h: "innerHeight ?s = 1000" and o: "oldActive ?s = Some ''linkA''"
    by (simp_all add: registry_eval directive_eval method_eval sample_eval)
  have u: "UPDATE_METHOD defaultOPTS (rects ?s) (elements ?s) (innerHeight ?s) = Inr None"
    unfolding e h by (simp add: method_eval sample_eval)
  from no_winner_no_change [OF u] o show ?thesis by simp
qed

end
